theory Spec2Isabelle
  imports Main "HOL-Library.AList" "HOL-Library.Multiset"
begin

section \<open>Errors, XML elements and the two namespaces\<close>

text \<open>
  Every exception the two modules can raise is a value. \<open>Remote\<close> is an exception
  object handed back by the service-call collaborator and re-raised unchanged;
  \<open>CodecError\<close> is whatever a field codec or the base64 decoder of the standard
  library raises on its own.
\<close>

datatype error =
    ValueError
  | AssertionError
  | TypeError
  | AttributeError
  | KeyError
  | Remote string
  | CodecError string

text \<open>
  An ElementTree element: a tag, an attribute dictionary, the text (\<open>None\<close> when the
  element carries no text) and the direct children in document order.
\<close>

datatype elem =
  Element (tag: string) (attrib: "(string \<times> string option) list")
          (text_of: "string option") (children: "elem list")

text \<open>\<^verbatim>\<open>elem.get(key)\<close>: the stored value, \<open>None\<close> for a missing key.\<close>

definition elem_get :: "elem \<Rightarrow> string \<Rightarrow> string option" where
  "elem_get e k = (case map_of (attrib e) k of None \<Rightarrow> None | Some v \<Rightarrow> v)"


text \<open>\<^verbatim>\<open>elem.append(child)\<close>.\<close>

definition elem_append :: "elem \<Rightarrow> elem \<Rightarrow> elem" where
  "elem_append e c = Element (tag e) (attrib e) (text_of e) (children e @ [c])"

text \<open>\<^verbatim>\<open>elem.find(tag)\<close> with a plain qualified tag: the first direct child of that tag.\<close>

definition elem_find :: "elem \<Rightarrow> string \<Rightarrow> elem option" where
  "elem_find e t = List.find (\<lambda>c. tag c = t) (children e)"

text \<open>
  Modelled from the spec: \<^verbatim>\<open>create_element\<close> of \<^verbatim>\<open>util.py\<close>, which is not among the
  sources. The spec has encode "create an element with the correct namespace-qualified
  tag" and has request tags "namespace-prefixed by a fixed two-letter convention": the
  new element carries the tag it is given and nothing else.
\<close>

definition create_element :: "string \<Rightarrow> elem" where
  "create_element t = Element t [] None []"

text \<open>
  \<^verbatim>\<open>TNS\<close> and \<^verbatim>\<open>MNS\<close> are constants of \<^verbatim>\<open>services.py\<close>, which is not among the sources;
  they are parameters \<open>tns\<close> and \<open>mns\<close> throughout.

  \<^verbatim>\<open>request_tag\<close> indexes the dictionary literal \<^verbatim>\<open>{TNS: 't:Name', MNS: 'm:Name'}\<close> with
  the class's namespace: the later key wins should the two constants coincide, and a
  namespace that is neither raises KeyError.
\<close>

definition request_tag :: "string \<Rightarrow> string \<Rightarrow> string \<Rightarrow> string \<Rightarrow> error + string" where
  "request_tag tns mns namespace element_name =
     (if namespace = mns then Inr (''m:'' @ element_name)
      else if namespace = tns then Inr (''t:'' @ element_name)
      else Inl KeyError)"

text \<open>\<^verbatim>\<open>response_tag\<close>: \<^verbatim>\<open>'{%s}%s' % (cls.NAMESPACE, cls.ELEMENT_NAME)\<close>.\<close>

definition response_tag :: "string \<Rightarrow> string \<Rightarrow> string" where
  "response_tag namespace element_name = ''{'' @ namespace @ ''}'' @ element_name"

section \<open>Field descriptors\<close>

text \<open>
  The attributes of a field object that the two modules read. The field classes
  themselves live in \<^verbatim>\<open>fields.py\<close>, which is not among the sources: their methods
  \<^verbatim>\<open>clean\<close>, \<^verbatim>\<open>to_xml\<close> and \<^verbatim>\<open>from_xml\<close> are parameters of the functions that call them.
\<close>

record field =
  name :: string
  field_uri :: "string option"
  is_required :: bool
  is_read_only :: bool
  is_list :: bool

section \<open>Identity types: ItemId, ParentItemId, RootItemId\<close>

datatype id_class = ItemId | ParentItemId | RootItemId

fun ELEMENT_NAME :: "id_class \<Rightarrow> string" where
  "ELEMENT_NAME ItemId = ''ItemId''"
| "ELEMENT_NAME ParentItemId = ''ParentItemId''"
| "ELEMENT_NAME RootItemId = ''RootItemId''"

text \<open>\<^verbatim>\<open>ItemId\<close> inherits \<^verbatim>\<open>NAMESPACE = TNS\<close>; the two subclasses set \<^verbatim>\<open>MNS\<close>.\<close>

fun NAMESPACE :: "string \<Rightarrow> string \<Rightarrow> id_class \<Rightarrow> string" where
  "NAMESPACE tns mns ItemId = tns"
| "NAMESPACE tns mns ParentItemId = mns"
| "NAMESPACE tns mns RootItemId = mns"

fun ID_ATTR :: "id_class \<Rightarrow> string" where
  "ID_ATTR ItemId = ''Id''"
| "ID_ATTR ParentItemId = ''Id''"
| "ID_ATTR RootItemId = ''RootItemId''"

fun CHANGEKEY_ATTR :: "id_class \<Rightarrow> string" where
  "CHANGEKEY_ATTR ItemId = ''ChangeKey''"
| "CHANGEKEY_ATTR ParentItemId = ''ChangeKey''"
| "CHANGEKEY_ATTR RootItemId = ''RootItemChangeKey''"


text \<open>An instance: its class and the two slots \<^verbatim>\<open>id\<close> and \<^verbatim>\<open>changekey\<close>.\<close>

record identity =
  cls :: id_class
  id_val :: "string option"
  changekey :: "string option"

text \<open>
  \<^verbatim>\<open>ItemId.__eq__\<close>: \<open>False\<close> against \<^verbatim>\<open>None\<close>, otherwise the comparison of the two
  slots. The class of neither side is consulted.
\<close>

definition ItemId_eq :: "identity \<Rightarrow> identity option \<Rightarrow> bool" where
  "ItemId_eq self other =
     (case other of
        None \<Rightarrow> False
      | Some other' \<Rightarrow> id_val self = id_val other' \<and> changekey self = changekey other')"



text \<open>
  \<^verbatim>\<open>ItemId.from_xml(cls, elem)\<close>: \<open>None\<close> for no element, an assertion on the tag, then
  the two attributes read back. (The element is cleared afterwards; the identity
  built from it shares nothing with it.)
\<close>

definition ItemId_from_xml ::
  "string \<Rightarrow> string \<Rightarrow> id_class \<Rightarrow> elem option \<Rightarrow> error + identity option"
where
  "ItemId_from_xml tns mns c elem =
     (case elem of
        None \<Rightarrow> Inr None
      | Some e \<Rightarrow>
          if tag e \<noteq> response_tag (NAMESPACE tns mns c) (ELEMENT_NAME c) then Inl AssertionError
          else Inr (Some \<lparr>cls = c, id_val = elem_get e (ID_ATTR c),
                          changekey = elem_get e (CHANGEKEY_ATTR c)\<rparr>))"


section \<open>Attachments and the service-call collaborator\<close>

type_synonym bytes = "char list"

datatype account = Account string

text \<open>
  The owning item (\<^verbatim>\<open>items.py\<close> is not among the sources): the three attributes the
  attachment code reads or writes, \<^verbatim>\<open>item_id\<close>, \<^verbatim>\<open>changekey\<close> and \<^verbatim>\<open>account\<close>.
\<close>

record Item =
  item_id :: "string option"
  item_changekey :: "string option"
  item_account :: "account option"

text \<open>\<^verbatim>\<open>AttachmentId\<close>: the slots \<^verbatim>\<open>id\<close>, \<^verbatim>\<open>root_id\<close> and \<^verbatim>\<open>root_changekey\<close>.\<close>

record AttachmentId =
  att_id :: "string option"
  root_id :: "string option"
  root_changekey :: "string option"

text \<open>
  \<^verbatim>\<open>Attachment\<close>: \<^verbatim>\<open>parent_item\<close> is a reference into the store of items (the item is
  shared with the caller, and \<^verbatim>\<open>attach\<close> and \<^verbatim>\<open>detach\<close> write to it); the other slots are
  the declared fields.
\<close>

record Attachment =
  parent_item :: "nat option"
  attachment_id :: "AttachmentId option"
  att_name :: "string option"
  content_type :: "string option"
  content_id :: "string option"
  content_location :: "string option"
  att_size :: "int option"
  last_modified_time :: "string option"
  is_inline :: "bool option"

text \<open>\<^verbatim>\<open>FileAttachment\<close> adds \<^verbatim>\<open>is_contact_photo\<close> and \<^verbatim>\<open>_content\<close>.\<close>

record FileAttachment = Attachment +
  is_contact_photo :: "bool option"
  content_slot :: "bytes option"

text \<open>\<^verbatim>\<open>ItemAttachment\<close> adds \<^verbatim>\<open>_item\<close>, an item of its own.\<close>

record ItemAttachment = Attachment +
  item_slot :: "Item option"

text \<open>
  One entry of the sequence a service call yields: an exception object, an XML
  element, \<^verbatim>\<open>None\<close>, or a tuple (which \<^verbatim>\<open>GetAttachment\<close> may yield and the payload fetch
  asserts against).
\<close>

datatype response = Failure string | Node elem | NoNode | TupleNode

text \<open>The calls made to the collaborator, in order, with what each was given.\<close>

datatype call =
    CreateAttachment account nat
  | DeleteAttachment account "AttachmentId list"
  | GetAttachment account "AttachmentId list" bool

text \<open>The mutable world: the items by reference, and the log of service calls.\<close>

record world =
  items :: "nat \<Rightarrow> Item"
  calls :: "call list"

text \<open>An entry after the decoding generator: the exception kept, or the decoded object.\<close>

datatype 'd decoded = Exception string | Decoded 'd

text \<open>
  \<^verbatim>\<open>list(... for i in ...)\<close>: the entries are decoded in order and the first decoder
  that raises ends the whole expression.
\<close>

fun decode_all :: "(response \<Rightarrow> error + 'd decoded) \<Rightarrow> response list \<Rightarrow> error + 'd decoded list" where
  "decode_all f [] = Inr []"
| "decode_all f (i # rest) =
     (case f i of
        Inl e \<Rightarrow> Inl e
      | Inr d \<Rightarrow> (case decode_all f rest of Inl e \<Rightarrow> Inl e | Inr ds \<Rightarrow> Inr (d # ds)))"

text \<open>
  \<^verbatim>\<open>FileAttachment.from_xml(cls, elem, account)\<close>. The field-by-field decoding and the
  constructor call are \<open>decode_fields\<close> (the field classes are not among the sources);
  the constructor finds no \<^verbatim>\<open>parent_item\<close> among the keywords and stores \<^verbatim>\<open>None\<close>.
\<close>

definition FileAttachment_from_xml ::
  "string \<Rightarrow> (elem \<Rightarrow> account \<Rightarrow> error + FileAttachment) \<Rightarrow> elem option \<Rightarrow> account
     \<Rightarrow> error + FileAttachment option"
where
  "FileAttachment_from_xml tns decode_fields elem acct =
     (case elem of
        None \<Rightarrow> Inr None
      | Some e \<Rightarrow>
          if tag e \<noteq> response_tag tns ''FileAttachment'' then Inl AssertionError
          else (case decode_fields e acct of
                  Inl er \<Rightarrow> Inl er
                | Inr a \<Rightarrow> Inr (Some (a\<lparr>parent_item := None\<rparr>))))"

text \<open>\<^verbatim>\<open>ItemAttachment.from_xml(cls, elem, account)\<close>, likewise.\<close>

definition ItemAttachment_from_xml ::
  "string \<Rightarrow> (elem \<Rightarrow> account \<Rightarrow> error + ItemAttachment) \<Rightarrow> elem option \<Rightarrow> account
     \<Rightarrow> error + ItemAttachment option"
where
  "ItemAttachment_from_xml tns decode_fields elem acct =
     (case elem of
        None \<Rightarrow> Inr None
      | Some e \<Rightarrow>
          if tag e \<noteq> response_tag tns ''ItemAttachment'' then Inl AssertionError
          else (case decode_fields e acct of
                  Inl er \<Rightarrow> Inl er
                | Inr a \<Rightarrow> Inr (Some (a\<lparr>parent_item := None\<rparr>))))"

text \<open>
  One step of the generator in \<^verbatim>\<open>attach\<close>:
  \<^verbatim>\<open>i if isinstance(i, Exception) else self.from_xml(elem=i, account=...)\<close>.
  A tuple has no \<^verbatim>\<open>tag\<close>, so \<^verbatim>\<open>from_xml\<close> raises AttributeError on it.
\<close>

definition attach_decode ::
  "(elem option \<Rightarrow> account \<Rightarrow> error + 'b option) \<Rightarrow> account \<Rightarrow> response
     \<Rightarrow> error + 'b option decoded"
where
  "attach_decode from_xml acct i =
     (case i of
        Failure m \<Rightarrow> Inr (Exception m)
      | Node e \<Rightarrow> (case from_xml (Some e) acct of Inl er \<Rightarrow> Inl er | Inr r \<Rightarrow> Inr (Decoded r))
      | NoNode \<Rightarrow> (case from_xml None acct of Inl er \<Rightarrow> Inl er | Inr r \<Rightarrow> Inr (Decoded r))
      | TupleNode \<Rightarrow> Inl AttributeError)"

text \<open>
  \<^verbatim>\<open>Attachment.attach\<close>. \<open>from_xml\<close> is the decoder of the attachment's own class
  (\<^verbatim>\<open>self.from_xml\<close>); \<open>create\<close> is the \<^verbatim>\<open>CreateAttachment\<close> collaborator, which sees the
  calls made so far, the account, the owning item and the attachment. The result is the
  outcome, the attachment and the world as the call leaves them, also when it raises.
\<close>

definition attach ::
  "(elem option \<Rightarrow> account \<Rightarrow> error + ('b Attachment_scheme) option)
     \<Rightarrow> (call list \<Rightarrow> account \<Rightarrow> Item \<Rightarrow> 'a Attachment_scheme \<Rightarrow> response list)
     \<Rightarrow> 'a Attachment_scheme \<Rightarrow> world
     \<Rightarrow> (error + unit) \<times> 'a Attachment_scheme \<times> world"
where
  "attach from_xml create self w =
     (if attachment_id self \<noteq> None then (Inl ValueError, self, w)
      else case parent_item self of
        None \<Rightarrow> (Inl ValueError, self, w)
      | Some p \<Rightarrow>
         (case item_account (items w p) of
            None \<Rightarrow> (Inl ValueError, self, w)
          | Some acct \<Rightarrow>
             (let rs = create (calls w) acct (items w p) self;
                  w1 = w\<lparr>calls := calls w @ [CreateAttachment acct p]\<rparr>
              in case decode_all (attach_decode from_xml acct) rs of
                   Inl e \<Rightarrow> (Inl e, self, w1)
                 | Inr [Exception m] \<Rightarrow> (Inl (Remote m), self, w1)
                 | Inr [Decoded None] \<Rightarrow> (Inl AttributeError, self, w1)
                 | Inr [Decoded (Some root_item_id)] \<Rightarrow>
                    (case attachment_id root_item_id of
                       None \<Rightarrow> (Inl AttributeError, self, w1)
                     | Some aid \<Rightarrow>
                        if root_id aid \<noteq> item_id (items w1 p) then (Inl AssertionError, self, w1)
                        else if \<not> (root_changekey aid \<noteq> item_changekey (items w1 p))
                          then (Inl AssertionError, self, w1)
                        else
                          (let w2 = w1\<lparr>items := (items w1)
                                     (p := (items w1 p)\<lparr>item_changekey := root_changekey aid\<rparr>)\<rparr>;
                               aid1 = aid\<lparr>root_id := None\<rparr>;
                               aid2 = aid1\<lparr>root_changekey := None\<rparr>
                           in (Inr (), self\<lparr>attachment_id := Some aid2\<rparr>, w2)))
                 | Inr _ \<Rightarrow> (Inl AssertionError, self, w1))))"

text \<open>
  The call \<^verbatim>\<open>RootItemId.from_xml(elem=i, account=...)\<close> in \<^verbatim>\<open>detach\<close>. The method it
  reaches is \<^verbatim>\<open>ItemId.from_xml(cls, elem)\<close>, which declares no parameter \<^verbatim>\<open>account\<close>:
  binding the keyword fails with TypeError before the body runs. \<open>kw_account\<close> is the
  keyword argument as the caller passes it (\<open>None\<close> when the caller passes none).
\<close>

definition ItemId_from_xml_call ::
  "string \<Rightarrow> string \<Rightarrow> id_class \<Rightarrow> elem option \<Rightarrow> account option \<Rightarrow> error + identity option"
where
  "ItemId_from_xml_call tns mns c elem kw_account =
     (case kw_account of
        Some _ \<Rightarrow> Inl TypeError
      | None \<Rightarrow> ItemId_from_xml tns mns c elem)"

text \<open>
  One step of the generator in \<^verbatim>\<open>detach\<close>:
  \<^verbatim>\<open>i if isinstance(i, Exception) else RootItemId.from_xml(elem=i, account=...)\<close>.
  On a tuple the same keyword binding fails, before the body could miss its \<^verbatim>\<open>tag\<close>.
\<close>

definition detach_decode ::
  "string \<Rightarrow> string \<Rightarrow> account \<Rightarrow> response \<Rightarrow> error + identity option decoded"
where
  "detach_decode tns mns acct i =
     (case i of
        Failure m \<Rightarrow> Inr (Exception m)
      | Node e \<Rightarrow> (case ItemId_from_xml_call tns mns RootItemId (Some e) (Some acct) of
                     Inl er \<Rightarrow> Inl er | Inr r \<Rightarrow> Inr (Decoded r))
      | NoNode \<Rightarrow> (case ItemId_from_xml_call tns mns RootItemId None (Some acct) of
                     Inl er \<Rightarrow> Inl er | Inr r \<Rightarrow> Inr (Decoded r))
      | TupleNode \<Rightarrow> Inl TypeError)"

text \<open>\<^verbatim>\<open>Attachment.detach\<close>; \<open>delete\<close> is the \<^verbatim>\<open>DeleteAttachment\<close> collaborator.\<close>

definition detach ::
  "string \<Rightarrow> string
     \<Rightarrow> (call list \<Rightarrow> account \<Rightarrow> AttachmentId list \<Rightarrow> response list)
     \<Rightarrow> 'a Attachment_scheme \<Rightarrow> world
     \<Rightarrow> (error + unit) \<times> 'a Attachment_scheme \<times> world"
where
  "detach tns mns delete self w =
     (case attachment_id self of
        None \<Rightarrow> (Inl ValueError, self, w)
      | Some aid \<Rightarrow>
         (case parent_item self of
            None \<Rightarrow> (Inl ValueError, self, w)
          | Some p \<Rightarrow>
             (case item_account (items w p) of
                None \<Rightarrow> (Inl ValueError, self, w)
              | Some acct \<Rightarrow>
                 (let rs = delete (calls w) acct [aid];
                      w1 = w\<lparr>calls := calls w @ [DeleteAttachment acct [aid]]\<rparr>
                  in case decode_all (detach_decode tns mns acct) rs of
                       Inl e \<Rightarrow> (Inl e, self, w1)
                     | Inr [Exception m] \<Rightarrow> (Inl (Remote m), self, w1)
                     | Inr [Decoded None] \<Rightarrow> (Inl AttributeError, self, w1)
                     | Inr [Decoded (Some root_item_id)] \<Rightarrow>
                        if id_val root_item_id \<noteq> item_id (items w1 p)
                          then (Inl AssertionError, self, w1)
                        else if \<not> (changekey root_item_id \<noteq> item_changekey (items w1 p))
                          then (Inl AssertionError, self, w1)
                        else
                          (let w2 = w1\<lparr>items := (items w1)
                                     (p := (items w1 p)\<lparr>item_changekey := changekey root_item_id\<rparr>)\<rparr>
                           in (Inr (), self\<lparr>parent_item := None, attachment_id := None\<rparr>, w2))
                     | Inr _ \<Rightarrow> (Inl AssertionError, self, w1)))))"

text \<open>
  \<^verbatim>\<open>base64.b64decode\<close> of the standard library as the payload fetch calls it: \<^verbatim>\<open>None\<close> is
  neither a string nor a bytes-like object and raises TypeError, the empty string
  decodes to no bytes, and \<open>std\<close> is the decoder on every other text.
\<close>

definition b64decode :: "(string \<Rightarrow> error + bytes) \<Rightarrow> string option \<Rightarrow> error + bytes" where
  "b64decode std s =
     (case s of
        None \<Rightarrow> Inl TypeError
      | Some t \<Rightarrow> if t = [] then Inr [] else std t)"

text \<open>
  The property \<^verbatim>\<open>FileAttachment.content\<close>; \<open>get\<close> is the \<^verbatim>\<open>GetAttachment\<close> collaborator,
  called with the attachment's identity and \<^verbatim>\<open>include_mime_content=False\<close>.
\<close>

definition content ::
  "string \<Rightarrow> (string \<Rightarrow> error + bytes)
     \<Rightarrow> (call list \<Rightarrow> account \<Rightarrow> AttachmentId list \<Rightarrow> bool \<Rightarrow> response list)
     \<Rightarrow> FileAttachment \<Rightarrow> world
     \<Rightarrow> (error + bytes option) \<times> FileAttachment \<times> world"
where
  "content tns std get self w =
     (case attachment_id self of
        None \<Rightarrow> (Inr (content_slot self), self, w)
      | Some aid \<Rightarrow>
         if content_slot self \<noteq> None then (Inr (content_slot self), self, w)
         else (case parent_item self of
            None \<Rightarrow> (Inl ValueError, self, w)
          | Some p \<Rightarrow>
             (case item_account (items w p) of
                None \<Rightarrow> (Inl ValueError, self, w)
              | Some acct \<Rightarrow>
                 (let elems = get (calls w) acct [aid] False;
                      w1 = w\<lparr>calls := calls w @ [GetAttachment acct [aid] False]\<rparr>
                  in case elems of
                       [Failure m] \<Rightarrow> (Inl (Remote m), self, w1)
                     | [TupleNode] \<Rightarrow> (Inl AssertionError, self, w1)
                     | [NoNode] \<Rightarrow> (Inl AttributeError, self, w1)
                     | [Node elem] \<Rightarrow>
                        (case elem_find elem (''{'' @ tns @ ''}Content'') of
                           None \<Rightarrow> (Inr None, self\<lparr>content_slot := None\<rparr>, w1)
                         | Some val \<Rightarrow>
                            (case b64decode std (text_of val) of
                               Inl er \<Rightarrow> (Inl er, self, w1)
                             | Inr bs \<Rightarrow> (Inr (Some bs), self\<lparr>content_slot := Some bs\<rparr>, w1)))
                     | _ \<Rightarrow> (Inl AssertionError, self, w1)))))"


section \<open>The generic element: clean and to_xml\<close>

text \<open>
  The values a slot of a generic element holds; \<^verbatim>\<open>None\<close> is the \<open>None\<close> of
  \<open>pyval option\<close>. \<open>PObj\<close> is any other object (a nested element, a date).
\<close>

datatype pyval = PStr string | PInt int | PBool bool | PList "pyval list" | PObj string

text \<open>Truth value testing, as \<^verbatim>\<open>not value\<close> applies it.\<close>

fun truthy :: "pyval \<Rightarrow> bool" where
  "truthy (PStr s) = (s \<noteq> [])"
| "truthy (PInt n) = (n \<noteq> 0)"
| "truthy (PBool b) = b"
| "truthy (PList xs) = (xs \<noteq> [])"
| "truthy (PObj x) = True"

text \<open>An instance of a generic element class: the value of each slot by name.\<close>

type_synonym entity = "string \<Rightarrow> pyval option"

text \<open>What \<^verbatim>\<open>to_xml\<close> reads of the class.\<close>

record ews_class =
  element_name :: string
  namespace :: string
  FIELDS :: "field list"

text \<open>\<^verbatim>\<open>setattr(self, name, value)\<close>, and a sequence of assignments carried out in order.\<close>

definition setattr :: "entity \<Rightarrow> string \<Rightarrow> pyval option \<Rightarrow> entity" where
  "setattr self k v = self(k := v)"

definition set_all :: "(string \<times> pyval option) list \<Rightarrow> entity \<Rightarrow> entity" where
  "set_all assignments self = fold (\<lambda>(k, v) s. setattr s k v) assignments self"

text \<open>
  \<^verbatim>\<open>EWSElement.clean\<close>: the loop over \<^verbatim>\<open>FIELDS\<close>; \<open>fclean\<close> is the field's validator.
  The instance comes back as the loop left it, also when a validator raises.
\<close>

fun clean_fields ::
  "(field \<Rightarrow> pyval option \<Rightarrow> error + pyval option) \<Rightarrow> field list \<Rightarrow> entity
     \<Rightarrow> error option \<times> entity"
where
  "clean_fields fclean [] self = (None, self)"
| "clean_fields fclean (f # fs) self =
     (case fclean f (self (name f)) of
        Inl e \<Rightarrow> (Some e, self)
      | Inr v \<Rightarrow> clean_fields fclean fs (setattr self (name f) v))"

definition EWSElement_clean ::
  "(field \<Rightarrow> pyval option \<Rightarrow> error + pyval option) \<Rightarrow> 'a ews_class_scheme \<Rightarrow> entity
     \<Rightarrow> error option \<times> entity"
where
  "EWSElement_clean fclean c self = clean_fields fclean (FIELDS c) self"

text \<open>The value of \<^verbatim>\<open>not x\<close> for a slot that may hold \<^verbatim>\<open>None\<close>.\<close>

definition py_not :: "pyval option \<Rightarrow> bool" where
  "py_not x = (case x of None \<Rightarrow> True | Some v \<Rightarrow> \<not> truthy v)"

text \<open>\<^verbatim>\<open>Mailbox.clean\<close>: the inherited loop, then the cross-field check.\<close>

definition Mailbox_clean ::
  "(field \<Rightarrow> pyval option \<Rightarrow> error + pyval option) \<Rightarrow> 'a ews_class_scheme \<Rightarrow> entity
     \<Rightarrow> error option \<times> entity"
where
  "Mailbox_clean fclean c self =
     (case EWSElement_clean fclean c self of
        (Some e, self') \<Rightarrow> (Some e, self')
      | (None, self') \<Rightarrow>
          if py_not (self' ''email_address'') \<and> py_not (self' ''item_id'')
          then (Some ValueError, self') else (None, self'))"

text \<open>
  The loop of \<^verbatim>\<open>EWSElement.to_xml\<close> over \<^verbatim>\<open>FIELDS\<close>, appending to the element \<open>i\<close>;
  \<open>fto\<close> is the field's \<^verbatim>\<open>to_xml(value, version=version)\<close>.
\<close>

fun append_fields ::
  "(field \<Rightarrow> pyval \<Rightarrow> 'v \<Rightarrow> error + elem) \<Rightarrow> 'v \<Rightarrow> entity \<Rightarrow> field list \<Rightarrow> elem
     \<Rightarrow> error + elem"
where
  "append_fields fto version self [] i = Inr i"
| "append_fields fto version self (f # fs) i =
     (if is_read_only f then append_fields fto version self fs i
      else case self (name f) of
             None \<Rightarrow> append_fields fto version self fs i
           | Some value \<Rightarrow>
               if is_list f \<and> \<not> truthy value then append_fields fto version self fs i
               else (case fto f value version of
                       Inl e \<Rightarrow> Inl e
                     | Inr child \<Rightarrow> append_fields fto version self fs (elem_append i child)))"

text \<open>
  \<^verbatim>\<open>EWSElement.to_xml\<close>. \<open>clean\<close> is \<^verbatim>\<open>self.clean\<close> as the instance's class defines it.
  The result pairs the outcome with the instance as \<^verbatim>\<open>clean\<close> left it.
\<close>

definition EWSElement_to_xml ::
  "string \<Rightarrow> string \<Rightarrow> (entity \<Rightarrow> error option \<times> entity)
     \<Rightarrow> (field \<Rightarrow> pyval \<Rightarrow> 'v \<Rightarrow> error + elem) \<Rightarrow> 'v \<Rightarrow> 'a ews_class_scheme \<Rightarrow> entity
     \<Rightarrow> (error + elem) \<times> entity"
where
  "EWSElement_to_xml tns mns clean fto version c self =
     (case clean self of
        (Some e, self') \<Rightarrow> (Inl e, self')
      | (None, self') \<Rightarrow>
          (case request_tag tns mns (namespace c) (element_name c) of
             Inl e \<Rightarrow> (Inl e, self')
           | Inr t \<Rightarrow> (append_fields fto version self' (FIELDS c) (create_element t), self')))"

text \<open>
  The encoder's rule in the spec's words: a declared field is emitted unless it is
  read-only, its value is absent, or it is a list field whose value is empty.
\<close>

definition emitted :: "entity \<Rightarrow> field \<Rightarrow> bool" where
  "emitted self f =
     (\<not> is_read_only f \<and>
      (case self (name f) of
         None \<Rightarrow> False
       | Some value \<Rightarrow> \<not> (is_list f \<and> \<not> truthy value)))"

text \<open>The class \<^verbatim>\<open>Mailbox\<close>: its tag, its namespace and its four fields as declared.\<close>

definition Mailbox :: "string \<Rightarrow> ews_class" where
  "Mailbox tns =
     \<lparr>element_name = ''Mailbox'', namespace = tns,
      FIELDS =
        [\<lparr>name = ''name'', field_uri = Some ''Name'', is_required = False,
           is_read_only = False, is_list = False\<rparr>,
         \<lparr>name = ''email_address'', field_uri = Some ''EmailAddress'', is_required = False,
           is_read_only = False, is_list = False\<rparr>,
         \<lparr>name = ''mailbox_type'', field_uri = Some ''MailboxType'', is_required = False,
           is_read_only = False, is_list = False\<rparr>,
         \<lparr>name = ''item_id'', field_uri = None, is_required = False,
           is_read_only = False, is_list = False\<rparr>]\<rparr>"


text \<open>Reading the payload twice in a row.\<close>

definition content_twice ::
  "string \<Rightarrow> (string \<Rightarrow> error + bytes)
     \<Rightarrow> (call list \<Rightarrow> account \<Rightarrow> AttachmentId list \<Rightarrow> bool \<Rightarrow> response list)
     \<Rightarrow> FileAttachment \<Rightarrow> world
     \<Rightarrow> (error + bytes option) \<times> (error + bytes option) \<times> FileAttachment \<times> world"
where
  "content_twice tns std get self w =
     (case content tns std get self w of
        (r1, self1, w1) \<Rightarrow>
          (case content tns std get self1 w1 of
             (r2, self2, w2) \<Rightarrow> (r1, r2, self2, w2)))"


text \<open>
  The relation between a declared field and the child appended for it: the field's
  encoder, on the value the instance holds for the field, returned that child.
\<close>

definition encodes :: "(field \<Rightarrow> pyval \<Rightarrow> 'v \<Rightarrow> error + elem) \<Rightarrow> 'v \<Rightarrow> entity \<Rightarrow> field \<Rightarrow> elem \<Rightarrow> bool" where
  "encodes fto version self f child =
     (case self (name f) of None \<Rightarrow> False | Some value \<Rightarrow> fto f value version = Inr child)"

section \<open>Sample values\<close>

text \<open>
  Concrete namespaces, an item with an account, attachments before and after creation,
  service responses and stand-ins for the field codecs and the collaborators, on which
  the operations are evaluated below.
\<close>

definition example_tns :: string where
  "example_tns = ''http://schemas.microsoft.com/exchange/services/2006/types''"

definition example_mns :: string where
  "example_mns = ''http://schemas.microsoft.com/exchange/services/2006/messages''"

definition example_item :: Item where
  "example_item = \<lparr>item_id = Some ''item-1'', item_changekey = Some ''ck-1'',
                    item_account = Some (Account ''user@example.com'')\<rparr>"

definition example_world :: world where
  "example_world = \<lparr>items = (\<lambda>r. example_item), calls = []\<rparr>"

definition example_file :: FileAttachment where
  "example_file =
     \<lparr>parent_item = Some 0, attachment_id = None, att_name = Some ''a.txt'',
      content_type = None, content_id = None, content_location = None, att_size = None,
      last_modified_time = None, is_inline = None, is_contact_photo = None,
      content_slot = Some ''hello''\<rparr>"

definition example_attached :: FileAttachment where
  "example_attached =
     \<lparr>parent_item = Some 0,
      attachment_id = Some \<lparr>att_id = Some ''att-1'', root_id = None, root_changekey = None\<rparr>,
      att_name = Some ''a.txt'',
      content_type = None, content_id = None, content_location = None, att_size = None,
      last_modified_time = None, is_inline = None, is_contact_photo = None,
      content_slot = None\<rparr>"

definition example_decode_fields :: "elem \<Rightarrow> account \<Rightarrow> error + FileAttachment" where
  "example_decode_fields e acct =
     Inr \<lparr>parent_item = None,
          attachment_id =
            (case elem_find e (response_tag example_tns ''AttachmentId'') of
               None \<Rightarrow> None
             | Some a \<Rightarrow> Some \<lparr>att_id = elem_get a ''Id'', root_id = elem_get a ''RootItemId'',
                                root_changekey = elem_get a ''RootItemChangeKey''\<rparr>),
          att_name = None, content_type = None, content_id = None, content_location = None,
          att_size = None, last_modified_time = None, is_inline = None,
          is_contact_photo = None, content_slot = None\<rparr>"

definition example_created :: "string \<Rightarrow> string \<Rightarrow> elem" where
  "example_created root ck =
     Element (response_tag example_tns ''FileAttachment'') [] None
       [Element (response_tag example_tns ''AttachmentId'')
          [(''Id'', Some ''att-1''), (''RootItemId'', Some root), (''RootItemChangeKey'', Some ck)]
          None []]"

definition example_deleted :: elem where
  "example_deleted =
     Element (response_tag example_mns ''RootItemId'')
       [(''RootItemId'', Some ''item-1''), (''RootItemChangeKey'', Some ''ck-2'')] None []"

definition example_fetched :: "elem list \<Rightarrow> elem" where
  "example_fetched cs = Element (response_tag example_tns ''FileAttachment'') [] None cs"

definition example_content :: "string option \<Rightarrow> elem" where
  "example_content t = Element (response_tag example_tns ''Content'') [] t []"

definition example_std :: "string \<Rightarrow> error + bytes" where
  "example_std t = (if t = ''aGVsbG8='' then Inr ''hello'' else Inl (CodecError t))"

definition example_fto :: "field \<Rightarrow> pyval \<Rightarrow> nat \<Rightarrow> error + elem" where
  "example_fto f value version =
     (case (field_uri f, value) of
        (Some uri, PStr s) \<Rightarrow> Inr (Element (''t:'' @ uri) [] (Some s) [])
      | _ \<Rightarrow> Inl (CodecError (name f)))"

definition example_assignments :: "(string \<times> pyval option) list" where
  "example_assignments =
     [(''name'', Some (PStr ''Al'')), (''email_address'', Some (PStr ''al@example.com''))]"

definition example_mailbox_xml :: elem where
  "example_mailbox_xml =
     Element ''t:Mailbox'' [] None
       [Element ''t:Name'' [] (Some ''Al'') [],
        Element ''t:EmailAddress'' [] (Some ''al@example.com'') []]"

section \<open>Identity equality\<close>

text \<open>
  C7. Two identities are equal exactly when their ids agree and their change keys
  agree; an identity whose id, or whose change key, differs from another's in a single
  character is unequal to it.
\<close>

theorem ItemId_eq_iff_fields:
  "(ItemId_eq a (Some b) \<longleftrightarrow> id_val a = id_val b \<and> changekey a = changekey b)
   \<and> (\<forall>s i c. i < length s \<and> c \<noteq> s ! i \<longrightarrow>
         \<not> ItemId_eq (a\<lparr>id_val := Some s\<rparr>) (Some (a\<lparr>cls := k, id_val := Some (s[i := c])\<rparr>)))
   \<and> (\<forall>s i c. i < length s \<and> c \<noteq> s ! i \<longrightarrow>
         \<not> ItemId_eq (a\<lparr>changekey := Some s\<rparr>) (Some (a\<lparr>cls := k, changekey := Some (s[i := c])\<rparr>)))"
proof -
  have diff: "s[i := c] \<noteq> s" if "i < length s" "c \<noteq> s ! i" for s :: string and i c
  proof
    assume "s[i := c] = s"
    then have "s[i := c] ! i = s ! i" by simp
    with that show False by simp
  qed
  have diff': "s \<noteq> s[i := c]" if "i < length s" "c \<noteq> s ! i" for s :: string and i c
    using diff [OF that] by metis
  show ?thesis
    by (simp add: ItemId_eq_def diff diff')
qed

theorem ItemId_eq_iff_fields_witness:
  "ItemId_eq \<lparr>cls = ItemId, id_val = Some ''AAMk'', changekey = Some ''CQAA''\<rparr>
     (Some \<lparr>cls = ItemId, id_val = Some ''AAMk'', changekey = Some ''CQAA''\<rparr>)
   \<and> (1::nat) < length ''AAMk'' \<and> CHR ''B'' \<noteq> ''AAMk'' ! 1
   \<and> \<not> ItemId_eq \<lparr>cls = ItemId, id_val = Some ''AAMk'', changekey = Some ''CQAA''\<rparr>
     (Some \<lparr>cls = ItemId, id_val = Some ''ABMk'', changekey = Some ''CQAA''\<rparr>)
   \<and> \<not> ItemId_eq \<lparr>cls = ItemId, id_val = Some ''CQAA'', changekey = Some ''AAMk''\<rparr>
     (Some \<lparr>cls = ItemId, id_val = Some ''CQAA'', changekey = Some ''ABMk''\<rparr>)"
  using ItemId_eq_iff_fields
    [of "\<lparr>cls = ItemId, id_val = Some ''AAMk'', changekey = Some ''CQAA''\<rparr>"
        "\<lparr>cls = ItemId, id_val = Some ''AAMk'', changekey = Some ''CQAA''\<rparr>" ItemId]
  by (simp add: ItemId_eq_def)

lemma response_tags_differ:
  "response_tag ns1 (ELEMENT_NAME ItemId) \<noteq> response_tag ns2 (ELEMENT_NAME RootItemId)"
  "response_tag ns1 (ELEMENT_NAME ItemId) \<noteq> response_tag ns2 (ELEMENT_NAME ParentItemId)"
proof -
  have "rev (response_tag ns1 (ELEMENT_NAME ItemId)) \<noteq> rev (response_tag ns2 (ELEMENT_NAME RootItemId))"
    by (simp add: response_tag_def)
  then show "response_tag ns1 (ELEMENT_NAME ItemId) \<noteq> response_tag ns2 (ELEMENT_NAME RootItemId)"
    by metis
  have "rev (response_tag ns1 (ELEMENT_NAME ItemId)) \<noteq> rev (response_tag ns2 (ELEMENT_NAME ParentItemId))"
    by (simp add: response_tag_def)
  then show "response_tag ns1 (ELEMENT_NAME ItemId) \<noteq> response_tag ns2 (ELEMENT_NAME ParentItemId)"
    by metis
qed

text \<open>
  C10. Equality does not look at the class: an item identity and a root-item or
  parent-item identity with the same id and change key are equal in either direction,
  although their request tags and their response tags differ; and an identity compared
  with \<^verbatim>\<open>None\<close> is unequal to it, with no error.
\<close>

theorem ItemId_eq_ignores_class:
  "ItemId_eq \<lparr>cls = ItemId, id_val = i, changekey = c\<rparr>
       (Some \<lparr>cls = RootItemId, id_val = i, changekey = c\<rparr>)
   \<and> ItemId_eq \<lparr>cls = RootItemId, id_val = i, changekey = c\<rparr>
       (Some \<lparr>cls = ItemId, id_val = i, changekey = c\<rparr>)
   \<and> ItemId_eq \<lparr>cls = ItemId, id_val = i, changekey = c\<rparr>
       (Some \<lparr>cls = ParentItemId, id_val = i, changekey = c\<rparr>)
   \<and> ItemId_eq \<lparr>cls = ParentItemId, id_val = i, changekey = c\<rparr>
       (Some \<lparr>cls = ItemId, id_val = i, changekey = c\<rparr>)
   \<and> request_tag tns mns (NAMESPACE tns mns ItemId) (ELEMENT_NAME ItemId)
       \<noteq> request_tag tns mns (NAMESPACE tns mns RootItemId) (ELEMENT_NAME RootItemId)
   \<and> request_tag tns mns (NAMESPACE tns mns ItemId) (ELEMENT_NAME ItemId)
       \<noteq> request_tag tns mns (NAMESPACE tns mns ParentItemId) (ELEMENT_NAME ParentItemId)
   \<and> response_tag (NAMESPACE tns mns ItemId) (ELEMENT_NAME ItemId)
       \<noteq> response_tag (NAMESPACE tns mns RootItemId) (ELEMENT_NAME RootItemId)
   \<and> response_tag (NAMESPACE tns mns ItemId) (ELEMENT_NAME ItemId)
       \<noteq> response_tag (NAMESPACE tns mns ParentItemId) (ELEMENT_NAME ParentItemId)
   \<and> ItemId_eq a None = False"
  using response_tags_differ [of "NAMESPACE tns mns ItemId"]
  by (simp add: ItemId_eq_def request_tag_def)

section \<open>Attaching\<close>

text \<open>
  What \<^verbatim>\<open>attach\<close> does once the collaborator has answered with one element that
  decodes to an attachment carrying an identity.
\<close>

lemma attach_call:
  assumes "attachment_id self = None" "parent_item self = Some p"
    "item_account (items w p) = Some acct"
    "create (calls w) acct (items w p) self = [Node e]"
    "from_xml (Some e) acct = Inr (Some r)" "attachment_id r = Some aid"
  shows "attach from_xml create self w =
     (if root_id aid \<noteq> item_id (items w p) \<or> root_changekey aid = item_changekey (items w p)
      then (Inl AssertionError, self, w\<lparr>calls := calls w @ [CreateAttachment acct p]\<rparr>)
      else (Inr (), self\<lparr>attachment_id := Some (aid\<lparr>root_id := None, root_changekey := None\<rparr>)\<rparr>,
            w\<lparr>calls := calls w @ [CreateAttachment acct p],
              items := (items w)(p := (items w p)\<lparr>item_changekey := root_changekey aid\<rparr>)\<rparr>))"
  using assms by (simp add: attach_def attach_decode_def Let_def)

lemma attach_attached:
  "attachment_id self \<noteq> None \<Longrightarrow> attach from_xml create self w = (Inl ValueError, self, w)"
  by (simp add: attach_def)

lemma example_from_xml:
  "FileAttachment_from_xml example_tns example_decode_fields
     (Some (example_created root ck)) acct =
   Inr (Some \<lparr>parent_item = None,
          attachment_id = Some \<lparr>att_id = Some ''att-1'', root_id = Some root, root_changekey = Some ck\<rparr>,
          att_name = None, content_type = None, content_id = None, content_location = None,
          att_size = None, last_modified_time = None, is_inline = None,
          is_contact_photo = None, content_slot = None\<rparr>)"
  by (simp add: FileAttachment_from_xml_def example_decode_fields_def example_created_def
      elem_find_def elem_get_def)


text \<open>
  C1. An unattached attachment (binary or nested-item: \<open>from_xml\<close> is the decoder of
  its class) whose owning item is present and has an account: when the create call
  answers with one element whose decoded identity names the owning item's id and a
  change key other than the item's current one, \<^verbatim>\<open>attach\<close> succeeds, the attachment's
  identity is present afterwards, the owning item's change key is the returned one, and
  one call was made; \<^verbatim>\<open>attach\<close> again on the result raises ValueError. And on any
  attachment whose identity is already present \<^verbatim>\<open>attach\<close> raises ValueError and returns
  the world as it was, the log of calls included.
\<close>

theorem attach_lifecycle:
  assumes "attachment_id self = None" and "parent_item self = Some p"
    and "item_account (items w p) = Some acct"
    and "create (calls w) acct (items w p) self = [Node e]"
    and "from_xml (Some e) acct = Inr (Some r)" and "attachment_id r = Some aid"
    and "root_id aid = item_id (items w p)"
    and "root_changekey aid \<noteq> item_changekey (items w p)"
  shows "(\<exists>self' w'. attach from_xml create self w = (Inr (), self', w')
           \<and> attachment_id self' \<noteq> None
           \<and> item_changekey (items w' p) = root_changekey aid
           \<and> calls w' = calls w @ [CreateAttachment acct p]
           \<and> attach from_xml create self' w' = (Inl ValueError, self', w'))
       \<and> (\<forall>other w0. attachment_id other \<noteq> None
           \<longrightarrow> attach from_xml create other w0 = (Inl ValueError, other, w0))"
  using assms by (simp add: attach_call attach_attached)

theorem attach_lifecycle_witness:
  "attachment_id example_file = None \<and> parent_item example_file = Some 0
   \<and> item_account (items example_world 0) = Some (Account ''user@example.com'')
   \<and> root_id \<lparr>att_id = Some ''att-1'', root_id = Some ''item-1'', root_changekey = Some ''ck-2''\<rparr>
        = item_id (items example_world 0)
   \<and> root_changekey \<lparr>att_id = Some ''att-1'', root_id = Some ''item-1'', root_changekey = Some ''ck-2''\<rparr>
        \<noteq> item_changekey (items example_world 0)
   \<and> (\<exists>self' w'.
         attach (FileAttachment_from_xml example_tns example_decode_fields)
           (\<lambda>cs acct it att. [Node (example_created ''item-1'' ''ck-2'')])
           example_file example_world = (Inr (), self', w')
         \<and> attachment_id self' \<noteq> None
         \<and> item_changekey (items w' 0) = Some ''ck-2''
         \<and> calls w' = [CreateAttachment (Account ''user@example.com'') 0])"
proof -
  have h1: "attachment_id example_file = None" and h2: "parent_item example_file = Some 0"
    by (simp_all add: example_file_def)
  have h3: "item_account (items example_world 0) = Some (Account ''user@example.com'')"
    by (simp add: example_world_def example_item_def)
  have h4: "(\<lambda>cs acct it att. [Node (example_created ''item-1'' ''ck-2'')])
              (calls example_world) (Account ''user@example.com'') (items example_world 0)
              example_file = [Node (example_created ''item-1'' ''ck-2'')]"
    by simp
  have h6: "attachment_id \<lparr>parent_item = None,
          attachment_id = Some \<lparr>att_id = Some ''att-1'', root_id = Some ''item-1'', root_changekey = Some ''ck-2''\<rparr>,
          att_name = None, content_type = None, content_id = None, content_location = None,
          att_size = None, last_modified_time = None, is_inline = None,
          is_contact_photo = None, content_slot = None\<rparr>
        = Some \<lparr>att_id = Some ''att-1'', root_id = Some ''item-1'', root_changekey = Some ''ck-2''\<rparr>"
    by simp
  have h7: "root_id \<lparr>att_id = Some ''att-1'', root_id = Some ''item-1'', root_changekey = Some ''ck-2''\<rparr>
        = item_id (items example_world 0)"
    by (simp add: example_world_def example_item_def)
  have h8: "root_changekey \<lparr>att_id = Some ''att-1'', root_id = Some ''item-1'', root_changekey = Some ''ck-2''\<rparr>
        \<noteq> item_changekey (items example_world 0)"
    by (simp add: example_world_def example_item_def)
  have h5: "FileAttachment_from_xml example_tns example_decode_fields
              (Some (example_created ''item-1'' ''ck-2'')) (Account ''user@example.com'') =
            Inr (Some \<lparr>parent_item = None,
          attachment_id = Some \<lparr>att_id = Some ''att-1'', root_id = Some ''item-1'', root_changekey = Some ''ck-2''\<rparr>,
          att_name = None, content_type = None, content_id = None, content_location = None,
          att_size = None, last_modified_time = None, is_inline = None,
          is_contact_photo = None, content_slot = None\<rparr>)"
    by (rule example_from_xml)
  note inst = attach_lifecycle
    [where from_xml = "FileAttachment_from_xml example_tns example_decode_fields"
       and create = "\<lambda>cs acct it att. [Node (example_created ''item-1'' ''ck-2'')]"
       and self = example_file and w = example_world and p = 0
       and acct = "Account ''user@example.com''"
       and e = "example_created ''item-1'' ''ck-2''"
       and aid = "\<lparr>att_id = Some ''att-1'', root_id = Some ''item-1'', root_changekey = Some ''ck-2''\<rparr>",
     OF h1 h2 h3 h4 h5 h6 h7 h8]
  from inst h1 h2 h3 h7 h8 show ?thesis by (simp add: example_world_def) blast
qed

text \<open>
  C2. Under the same preconditions, when the returned root id differs from the owning
  item's id or the returned change key equals the item's current one, \<^verbatim>\<open>attach\<close> raises
  AssertionError; the attachment is returned as it was, its identity still absent, and
  the items are as they were. The call to the collaborator is the only trace.
\<close>

theorem attach_inconsistent:
  assumes "attachment_id self = None" and "parent_item self = Some p"
    and "item_account (items w p) = Some acct"
    and "create (calls w) acct (items w p) self = [Node e]"
    and "from_xml (Some e) acct = Inr (Some r)" and "attachment_id r = Some aid"
    and "root_id aid \<noteq> item_id (items w p) \<or> root_changekey aid = item_changekey (items w p)"
  shows "\<exists>w'. attach from_xml create self w = (Inl AssertionError, self, w')
           \<and> items w' = items w \<and> attachment_id self = None
           \<and> calls w' = calls w @ [CreateAttachment acct p]"
  using assms by (auto simp add: attach_call)

theorem attach_inconsistent_witness:
  "attachment_id example_file = None \<and> parent_item example_file = Some 0
   \<and> item_account (items example_world 0) = Some (Account ''user@example.com'')
   \<and> root_changekey \<lparr>att_id = Some ''att-1'', root_id = Some ''item-1'', root_changekey = Some ''ck-1''\<rparr>
          = item_changekey (items example_world 0)
   \<and> (\<exists>w'.
         attach (FileAttachment_from_xml example_tns example_decode_fields)
           (\<lambda>cs acct it att. [Node (example_created ''item-1'' ''ck-1'')])
           example_file example_world = (Inl AssertionError, example_file, w')
         \<and> items w' = items example_world
         \<and> calls w' = [CreateAttachment (Account ''user@example.com'') 0])"
proof -
  have h1: "attachment_id example_file = None" and h2: "parent_item example_file = Some 0"
    by (simp_all add: example_file_def)
  have h3: "item_account (items example_world 0) = Some (Account ''user@example.com'')"
    by (simp add: example_world_def example_item_def)
  have h4: "(\<lambda>cs acct it att. [Node (example_created ''item-1'' ''ck-1'')])
              (calls example_world) (Account ''user@example.com'') (items example_world 0)
              example_file = [Node (example_created ''item-1'' ''ck-1'')]"
    by simp
  have h5: "FileAttachment_from_xml example_tns example_decode_fields
              (Some (example_created ''item-1'' ''ck-1'')) (Account ''user@example.com'') =
            Inr (Some \<lparr>parent_item = None,
          attachment_id = Some \<lparr>att_id = Some ''att-1'', root_id = Some ''item-1'', root_changekey = Some ''ck-1''\<rparr>,
          att_name = None, content_type = None, content_id = None, content_location = None,
          att_size = None, last_modified_time = None, is_inline = None,
          is_contact_photo = None, content_slot = None\<rparr>)"
    by (rule example_from_xml)
  have h6: "attachment_id \<lparr>parent_item = None,
          attachment_id = Some \<lparr>att_id = Some ''att-1'', root_id = Some ''item-1'', root_changekey = Some ''ck-1''\<rparr>,
          att_name = None, content_type = None, content_id = None, content_location = None,
          att_size = None, last_modified_time = None, is_inline = None,
          is_contact_photo = None, content_slot = None\<rparr>
        = Some \<lparr>att_id = Some ''att-1'', root_id = Some ''item-1'', root_changekey = Some ''ck-1''\<rparr>"
    by simp
  have h7: "root_id \<lparr>att_id = Some ''att-1'', root_id = Some ''item-1'', root_changekey = Some ''ck-1''\<rparr>
          \<noteq> item_id (items example_world 0)
        \<or> root_changekey \<lparr>att_id = Some ''att-1'', root_id = Some ''item-1'', root_changekey = Some ''ck-1''\<rparr>
          = item_changekey (items example_world 0)"
    by (simp add: example_world_def example_item_def)
  note inst = attach_inconsistent
    [where from_xml = "FileAttachment_from_xml example_tns example_decode_fields"
       and create = "\<lambda>cs acct it att. [Node (example_created ''item-1'' ''ck-1'')]"
       and self = example_file and w = example_world and p = 0
       and acct = "Account ''user@example.com''"
       and e = "example_created ''item-1'' ''ck-1''"
       and aid = "\<lparr>att_id = Some ''att-1'', root_id = Some ''item-1'', root_changekey = Some ''ck-1''\<rparr>",
     OF h1 h2 h3 h4 h5 h6 h7]
  have h7': "root_changekey \<lparr>att_id = Some ''att-1'', root_id = Some ''item-1'', root_changekey = Some ''ck-1''\<rparr>
          = item_changekey (items example_world 0)"
    by (simp add: example_world_def example_item_def)
  from inst h1 h2 h3 h7' show ?thesis by (simp add: example_world_def)
qed



section \<open>Detaching\<close>

text \<open>
  C3. \<^verbatim>\<open>detach\<close> on an attached attachment whose owning item has id \<open>item-1\<close>, change
  key \<open>ck-1\<close> and an account, when the delete call answers with one \<^verbatim>\<open>RootItemId\<close>
  element naming \<open>item-1\<close> and the change key \<open>ck-2\<close>: decoding the element passes the
  keyword \<^verbatim>\<open>account\<close> to \<^verbatim>\<open>ItemId.from_xml(cls, elem)\<close> and raises TypeError. The
  attachment keeps its identity and its owning item, and the item keeps \<open>ck-1\<close>.
\<close>

theorem detach_raises_TypeError:
  "detach example_tns example_mns (\<lambda>cs acct ids. [Node example_deleted])
     example_attached example_world =
   (Inl TypeError, example_attached,
    example_world\<lparr>calls := [DeleteAttachment (Account ''user@example.com'')
       [\<lparr>att_id = Some ''att-1'', root_id = None, root_changekey = None\<rparr>]]\<rparr>)"
  by (simp add: detach_def detach_decode_def ItemId_from_xml_call_def example_attached_def
      example_world_def example_item_def)

section \<open>Fetching the payload\<close>

lemma content_fetch:
  assumes "attachment_id self = Some aid" "content_slot self = None"
    "parent_item self = Some p" "item_account (items w p) = Some acct"
    "get (calls w) acct [aid] False = [Node e]"
  shows "content tns std get self w =
     (case elem_find e (''{'' @ tns @ ''}Content'') of
        None \<Rightarrow> (Inr None, self\<lparr>content_slot := None\<rparr>,
                  w\<lparr>calls := calls w @ [GetAttachment acct [aid] False]\<rparr>)
      | Some val \<Rightarrow>
          (case b64decode std (text_of val) of
             Inl er \<Rightarrow> (Inl er, self, w\<lparr>calls := calls w @ [GetAttachment acct [aid] False]\<rparr>)
           | Inr bs \<Rightarrow> (Inr (Some bs), self\<lparr>content_slot := Some bs\<rparr>,
                        w\<lparr>calls := calls w @ [GetAttachment acct [aid] False]\<rparr>)))"
  using assms by (simp add: content_def Let_def)

lemma content_cached:
  "attachment_id self = Some aid \<Longrightarrow> content_slot self = Some bs
     \<Longrightarrow> content tns std get self w = (Inr (Some bs), self, w)"
  by (simp add: content_def)

lemma content_calls:
  assumes "attachment_id self = Some aid" "content_slot self = None"
    "parent_item self = Some p" "item_account (items w p) = Some acct"
  shows "\<exists>r self' w'. content tns std get self w = (r, self', w')
           \<and> calls w' = calls w @ [GetAttachment acct [aid] False]"
  using assms
  by (simp add: content_def Let_def split: list.splits response.splits option.splits sum.splits)

text \<open>
  C5, as the code has it. A binary attachment with an identity, no cached payload and
  an owning item with an account, whose first fetch is answered with one element: if
  that element has a \<^verbatim>\<open>Content\<close> child whose text decodes to bytes (empty or not), reading
  twice makes exactly one call and both reads return those bytes; if it has no
  \<^verbatim>\<open>Content\<close> child, the first read returns \<^verbatim>\<open>None\<close>, nothing is kept, and the second read
  calls the collaborator again.
\<close>

theorem content_fetched_once:
  assumes "attachment_id self = Some aid" and "content_slot self = None"
    and "parent_item self = Some p" and "item_account (items w p) = Some acct"
    and "get (calls w) acct [aid] False = [Node e]"
  shows "(\<forall>val bs. elem_find e (''{'' @ tns @ ''}Content'') = Some val
              \<and> b64decode std (text_of val) = Inr bs \<longrightarrow>
            content_twice tns std get self w =
              (Inr (Some bs), Inr (Some bs), self\<lparr>content_slot := Some bs\<rparr>,
               w\<lparr>calls := calls w @ [GetAttachment acct [aid] False]\<rparr>))
       \<and> (elem_find e (''{'' @ tns @ ''}Content'') = None \<longrightarrow>
            (\<exists>r2 self2 w2. content_twice tns std get self w = (Inr None, r2, self2, w2)
               \<and> calls w2 = calls w @ [GetAttachment acct [aid] False,
                                         GetAttachment acct [aid] False]))"
proof (intro conjI allI impI)
  fix val bs
  assume "elem_find e (''{'' @ tns @ ''}Content'') = Some val \<and> b64decode std (text_of val) = Inr bs"
  then have first: "content tns std get self w =
      (Inr (Some bs), self\<lparr>content_slot := Some bs\<rparr>,
       w\<lparr>calls := calls w @ [GetAttachment acct [aid] False]\<rparr>)"
    by (simp add: content_fetch [where get = get, OF assms])
  have second: "content tns std get (self\<lparr>content_slot := Some bs\<rparr>)
       (w\<lparr>calls := calls w @ [GetAttachment acct [aid] False]\<rparr>) =
      (Inr (Some bs), self\<lparr>content_slot := Some bs\<rparr>,
       w\<lparr>calls := calls w @ [GetAttachment acct [aid] False]\<rparr>)"
    using assms(1) by (simp add: content_cached)
  show "content_twice tns std get self w =
      (Inr (Some bs), Inr (Some bs), self\<lparr>content_slot := Some bs\<rparr>,
       w\<lparr>calls := calls w @ [GetAttachment acct [aid] False]\<rparr>)"
    by (simp add: content_twice_def first second)
next
  assume none: "elem_find e (''{'' @ tns @ ''}Content'') = None"
  let ?w1 = "w\<lparr>calls := calls w @ [GetAttachment acct [aid] False]\<rparr>"
  let ?s1 = "self\<lparr>content_slot := None\<rparr>"
  have first: "content tns std get self w = (Inr None, ?s1, ?w1)"
    using none by (simp add: content_fetch [where get = get, OF assms])
  have "\<exists>r self' w'. content tns std get ?s1 ?w1 = (r, self', w')
           \<and> calls w' = calls ?w1 @ [GetAttachment acct [aid] False]"
    using assms by (intro content_calls) simp_all
  then obtain r2 self2 w2 where second: "content tns std get ?s1 ?w1 = (r2, self2, w2)"
    and log: "calls w2 = calls ?w1 @ [GetAttachment acct [aid] False]"
    by blast
  have "content_twice tns std get self w = (Inr None, r2, self2, w2)"
    by (simp add: content_twice_def first second)
  with log show "\<exists>r2 self2 w2. content_twice tns std get self w = (Inr None, r2, self2, w2)
               \<and> calls w2 = calls w @ [GetAttachment acct [aid] False,
                                         GetAttachment acct [aid] False]"
    by simp
qed

theorem content_fetched_once_witness:
  "attachment_id example_attached
      = Some \<lparr>att_id = Some ''att-1'', root_id = None, root_changekey = None\<rparr>
   \<and> content_slot example_attached = None \<and> parent_item example_attached = Some 0
   \<and> item_account (items example_world 0) = Some (Account ''user@example.com'')
   \<and> elem_find (example_fetched [example_content (Some ''aGVsbG8='')])
        (''{'' @ example_tns @ ''}Content'') = Some (example_content (Some ''aGVsbG8=''))
   \<and> b64decode example_std (text_of (example_content (Some ''aGVsbG8=''))) = Inr ''hello''
   \<and> content_twice example_tns example_std
        (\<lambda>cs acct ids mime. [Node (example_fetched [example_content (Some ''aGVsbG8='')])])
        example_attached example_world
      = (Inr (Some ''hello''), Inr (Some ''hello''),
         example_attached\<lparr>content_slot := Some ''hello''\<rparr>,
         example_world\<lparr>calls := calls example_world @
           [GetAttachment (Account ''user@example.com'')
              [\<lparr>att_id = Some ''att-1'', root_id = None, root_changekey = None\<rparr>] False]\<rparr>)
   \<and> elem_find (example_fetched []) (''{'' @ example_tns @ ''}Content'') = None
   \<and> (\<exists>r2 self2 w2.
         content_twice example_tns example_std
           (\<lambda>cs acct ids mime. [Node (example_fetched [])]) example_attached example_world
           = (Inr None, r2, self2, w2)
         \<and> calls w2 = calls example_world @
           [GetAttachment (Account ''user@example.com'')
              [\<lparr>att_id = Some ''att-1'', root_id = None, root_changekey = None\<rparr>] False,
            GetAttachment (Account ''user@example.com'')
              [\<lparr>att_id = Some ''att-1'', root_id = None, root_changekey = None\<rparr>] False])"
proof -
  have h1: "attachment_id example_attached
      = Some \<lparr>att_id = Some ''att-1'', root_id = None, root_changekey = None\<rparr>"
    and h2: "content_slot example_attached = None"
    and h3: "parent_item example_attached = Some 0"
    by (simp_all add: example_attached_def)
  have h4: "item_account (items example_world 0) = Some (Account ''user@example.com'')"
    by (simp add: example_world_def example_item_def)
  have f1: "elem_find (example_fetched [example_content (Some ''aGVsbG8='')])
        (''{'' @ example_tns @ ''}Content'') = Some (example_content (Some ''aGVsbG8=''))"
    by (simp add: elem_find_def example_fetched_def example_content_def response_tag_def)
  have d1: "b64decode example_std (text_of (example_content (Some ''aGVsbG8=''))) = Inr ''hello''"
    by (simp add: b64decode_def example_std_def example_content_def)
  have f2: "elem_find (example_fetched []) (''{'' @ example_tns @ ''}Content'') = None"
    by (simp add: elem_find_def example_fetched_def)
  have g1: "(\<lambda>cs acct ids mime. [Node (example_fetched [example_content (Some ''aGVsbG8='')])])
       (calls example_world) (Account ''user@example.com'')
       [\<lparr>att_id = Some ''att-1'', root_id = None, root_changekey = None\<rparr>] False
     = [Node (example_fetched [example_content (Some ''aGVsbG8='')])]"
    by simp
  have g2: "(\<lambda>cs acct ids mime. [Node (example_fetched [])])
       (calls example_world) (Account ''user@example.com'')
       [\<lparr>att_id = Some ''att-1'', root_id = None, root_changekey = None\<rparr>] False
     = [Node (example_fetched [])]"
    by simp
  note present = content_fetched_once
    [where get = "\<lambda>cs acct ids mime. [Node (example_fetched [example_content (Some ''aGVsbG8='')])]"
       and e = "example_fetched [example_content (Some ''aGVsbG8='')]"
       and tns = example_tns and std = example_std, OF h1 h2 h3 h4 g1]
  note absent = content_fetched_once
    [where get = "\<lambda>cs acct ids mime. [Node (example_fetched [])]"
       and e = "example_fetched []"
       and tns = example_tns and std = example_std, OF h1 h2 h3 h4 g2]
  from present f1 d1 have p: "content_twice example_tns example_std
        (\<lambda>cs acct ids mime. [Node (example_fetched [example_content (Some ''aGVsbG8='')])])
        example_attached example_world
      = (Inr (Some ''hello''), Inr (Some ''hello''),
         example_attached\<lparr>content_slot := Some ''hello''\<rparr>,
         example_world\<lparr>calls := calls example_world @
           [GetAttachment (Account ''user@example.com'')
              [\<lparr>att_id = Some ''att-1'', root_id = None, root_changekey = None\<rparr>] False]\<rparr>)"
    by blast
  from absent f2 have a: "\<exists>r2 self2 w2.
         content_twice example_tns example_std
           (\<lambda>cs acct ids mime. [Node (example_fetched [])]) example_attached example_world
           = (Inr None, r2, self2, w2)
         \<and> calls w2 = calls example_world @
           [GetAttachment (Account ''user@example.com'')
              [\<lparr>att_id = Some ''att-1'', root_id = None, root_changekey = None\<rparr>] False,
            GetAttachment (Account ''user@example.com'')
              [\<lparr>att_id = Some ''att-1'', root_id = None, root_changekey = None\<rparr>] False]"
    by blast
  from h1 h2 h3 h4 f1 d1 p f2 a show ?thesis by blast
qed

text \<open>
  C5 as stated fails: with a response that has no \<^verbatim>\<open>Content\<close> child both reads return
  \<^verbatim>\<open>None\<close> and the log holds two \<^verbatim>\<open>GetAttachment\<close> calls.
\<close>

theorem content_none_fetched_again:
  "content_twice example_tns (\<lambda>t. Inl (CodecError t))
     (\<lambda>cs acct ids mime. [Node (example_fetched [])]) example_attached example_world =
   (Inr None, Inr None, example_attached,
    example_world\<lparr>calls :=
      [GetAttachment (Account ''user@example.com'')
         [\<lparr>att_id = Some ''att-1'', root_id = None, root_changekey = None\<rparr>] False,
       GetAttachment (Account ''user@example.com'')
         [\<lparr>att_id = Some ''att-1'', root_id = None, root_changekey = None\<rparr>] False]\<rparr>)"
  by (simp add: content_twice_def content_def example_attached_def example_world_def
      example_item_def example_fetched_def elem_find_def)

text \<open>
  C6. A response whose \<^verbatim>\<open>Content\<close> child is present and empty, as a parser delivers
  it (no text, so \<^verbatim>\<open>val.text\<close> is \<^verbatim>\<open>None\<close>): the payload fetch raises TypeError from the
  base64 decoder and caches nothing.
\<close>

theorem content_empty_element_raises:
  "content example_tns (\<lambda>t. Inl (CodecError t))
     (\<lambda>cs acct ids mime.
        [Node (example_fetched [Element (response_tag example_tns ''Content'') [] None []])])
     example_attached example_world =
   (Inl TypeError, example_attached,
    example_world\<lparr>calls :=
      [GetAttachment (Account ''user@example.com'')
         [\<lparr>att_id = Some ''att-1'', root_id = None, root_changekey = None\<rparr>] False]\<rparr>)"
  by (simp add: content_def example_attached_def example_world_def
      example_item_def example_fetched_def elem_find_def response_tag_def b64decode_def
      example_tns_def)

section \<open>Encoding in declared order\<close>

lemma append_fields_children:
  "append_fields fto version self fs i0 = Inr i \<Longrightarrow>
     tag i = tag i0 \<and> attrib i = attrib i0 \<and> text_of i = text_of i0 \<and>
     (\<exists>cs. children i = children i0 @ cs
        \<and> list_all2 (encodes fto version self) (filter (emitted self) fs) cs)"
proof (induction fs arbitrary: i0)
  case Nil
  then show ?case by simp
next
  case (Cons f fs)
  show ?case
  proof (cases "emitted self f")
    case False
    then have "append_fields fto version self (f # fs) i0 = append_fields fto version self fs i0"
      by (auto simp: emitted_def split: option.splits)
    with Cons.prems have "append_fields fto version self fs i0 = Inr i" by simp
    from Cons.IH [OF this] False show ?thesis by simp
  next
    case True
    then obtain "value" where v: "self (name f) = Some value" and ro: "\<not> is_read_only f"
      and li: "\<not> (is_list f \<and> \<not> truthy value)"
      by (auto simp: emitted_def split: option.splits)
    from Cons.prems v ro li obtain child where c: "fto f value version = Inr child"
      and rest: "append_fields fto version self fs (elem_append i0 child) = Inr i"
      by (auto split: sum.splits)
    from Cons.IH [OF rest] obtain cs where
      "tag i = tag i0" "attrib i = attrib i0" "text_of i = text_of i0"
      "children i = children i0 @ child # cs"
      "list_all2 (encodes fto version self) (filter (emitted self) fs) cs"
      by (auto simp: elem_append_def)
    moreover have "encodes fto version self f child"
      using v c by (simp add: encodes_def)
    ultimately show ?thesis using True by simp
  qed
qed

lemma set_all_reordered:
  assumes "distinct (map fst assignments)" and "mset reordered = mset assignments"
  shows "set_all reordered self = set_all assignments self"
proof -
  have comm: "(\<lambda>(k, v) s. setattr s k v) x \<circ> (\<lambda>(k, v) s. setattr s k v) y
            = (\<lambda>(k, v) s. setattr s k v) y \<circ> (\<lambda>(k, v) s. setattr s k v) x"
    if "x \<in> set assignments" "y \<in> set assignments" for x y :: "string \<times> pyval option"
  proof (cases "fst x = fst y")
    case True
    with assms(1) that have "x = y"
      by (metis distinct_map inj_on_def)
    then show ?thesis by simp
  next
    case False
    then show ?thesis
      by (cases x, cases y) (auto simp: setattr_def fun_eq_iff)
  qed
  have "fold (\<lambda>(k, v) s. setattr s k v) assignments = fold (\<lambda>(k, v) s. setattr s k v) reordered"
    by (rule fold_multiset_equiv) (use comm assms(2) in auto)
  then show ?thesis by (simp add: set_all_def)
qed

lemma example_mailbox_to_xml:
  "EWSElement_to_xml example_tns example_mns
     (Mailbox_clean (\<lambda>f v. Inr v) (Mailbox example_tns)) example_fto (0::nat)
     (Mailbox example_tns) (set_all example_assignments (\<lambda>k. None))
   = (Inr example_mailbox_xml, set_all example_assignments (\<lambda>k. None))"
  by (simp add: EWSElement_to_xml_def Mailbox_clean_def EWSElement_clean_def Mailbox_def
      set_all_def setattr_def example_assignments_def py_not_def request_tag_def
      create_element_def elem_append_def example_fto_def example_mailbox_xml_def
      example_tns_def example_mns_def)

text \<open>
  C8. An instance whose slots were assigned in some order, each slot once: when
  \<^verbatim>\<open>to_xml\<close> returns an element, it returns the same element for every other order of
  the same assignments, and the element's children correspond one to one, in the order
  of \<^verbatim>\<open>FIELDS\<close>, to the declared fields that are not read-only, whose value is not
  \<^verbatim>\<open>None\<close> and which are not list fields with an empty value: each child is what the
  field's encoder returned for the field's value.
\<close>

theorem to_xml_declared_order:
  assumes "distinct (map fst assignments)" and "mset reordered = mset assignments"
    and "EWSElement_to_xml tns mns clean fto version c (set_all assignments self0) = (Inr i, self')"
  shows "EWSElement_to_xml tns mns clean fto version c (set_all reordered self0) = (Inr i, self')
       \<and> list_all2 (encodes fto version self') (filter (emitted self') (FIELDS c)) (children i)"
proof -
  from assms(3) obtain t where
    "append_fields fto version self' (FIELDS c) (create_element t) = Inr i"
    by (auto simp: EWSElement_to_xml_def split: prod.splits option.splits sum.splits)
  from append_fields_children [OF this]
  have "list_all2 (encodes fto version self') (filter (emitted self') (FIELDS c)) (children i)"
    by (auto simp: create_element_def)
  with assms(3) set_all_reordered [OF assms(1,2)] show ?thesis by simp
qed

theorem to_xml_declared_order_witness:
  "distinct (map fst example_assignments)
   \<and> mset (rev example_assignments) = mset example_assignments
   \<and> EWSElement_to_xml example_tns example_mns
       (Mailbox_clean (\<lambda>f v. Inr v) (Mailbox example_tns)) example_fto (0::nat)
       (Mailbox example_tns) (set_all example_assignments (\<lambda>k. None))
     = (Inr example_mailbox_xml, set_all example_assignments (\<lambda>k. None))
   \<and> EWSElement_to_xml example_tns example_mns
       (Mailbox_clean (\<lambda>f v. Inr v) (Mailbox example_tns)) example_fto (0::nat)
       (Mailbox example_tns) (set_all (rev example_assignments) (\<lambda>k. None))
     = (Inr example_mailbox_xml, set_all example_assignments (\<lambda>k. None))
   \<and> list_all2 (encodes example_fto (0::nat) (set_all example_assignments (\<lambda>k. None)))
       (filter (emitted (set_all example_assignments (\<lambda>k. None))) (FIELDS (Mailbox example_tns)))
       (children example_mailbox_xml)
   \<and> map name (filter (emitted (set_all example_assignments (\<lambda>k. None)))
        (FIELDS (Mailbox example_tns))) = [''name'', ''email_address'']"
proof -
  have d: "distinct (map fst example_assignments)"
    by (simp add: example_assignments_def)
  have m: "mset (rev example_assignments) = mset example_assignments"
    by simp
  have f: "map name (filter (emitted (set_all example_assignments (\<lambda>k. None)))
        (FIELDS (Mailbox example_tns))) = [''name'', ''email_address'']"
    by (simp add: Mailbox_def emitted_def set_all_def setattr_def example_assignments_def)
  from to_xml_declared_order [OF d m example_mailbox_to_xml] d m example_mailbox_to_xml f
  show ?thesis by simp
qed

section \<open>Round trip of identities\<close>




end
